theory Spec2Isabelle
  imports Complex_Main "HOL-Library.Char_ord" "HOL-Library.List_Lexorder" "HOL-Library.AList"
begin

section \<open>JavaScript values\<close>

text \<open>
  A field of a parsed JSON request body is absent, \<open>null\<close>, or a value of the type the
  schema declares for it (a string for \<open>name\<close> and \<open>category\<close>, a finite number for
  \<open>price\<close>). Numbers are exact reals: the rounding of IEEE doubles is not modelled.
  Strings are ASCII, one \<open>char\<close> per code unit.
\<close>

datatype 'a field = Undefined | Null | Val 'a

text \<open>The operand of \<open>!x\<close>: \<open>undefined\<close>, \<open>null\<close>, \<open>""\<close> and \<open>0\<close> are falsy.\<close>

definition falsy_str :: "string field \<Rightarrow> bool" where
  "falsy_str v = (case v of Val s \<Rightarrow> s = [] | _ \<Rightarrow> True)"

definition falsy_num :: "real field \<Rightarrow> bool" where
  "falsy_num v = (case v of Val r \<Rightarrow> r = 0 | _ \<Rightarrow> True)"

text \<open>A query-string parameter is absent or a string; a string is truthy when not empty.\<close>

definition truthy :: "string option \<Rightarrow> bool" where
  "truthy v = (case v of Some s \<Rightarrow> s \<noteq> [] | None \<Rightarrow> False)"

text \<open>
  The Number type, with negative zero identified with zero (the two differ only as
  divisors, and there the quotient is not finite on either side).
\<close>

datatype jsnum = NaN | PInf | NInf | Fin real

definition js_sub :: "jsnum \<Rightarrow> jsnum \<Rightarrow> jsnum" where
  "js_sub a b = (case (a, b) of
      (NaN, _) \<Rightarrow> NaN | (_, NaN) \<Rightarrow> NaN
    | (PInf, PInf) \<Rightarrow> NaN | (NInf, NInf) \<Rightarrow> NaN
    | (PInf, _) \<Rightarrow> PInf | (NInf, _) \<Rightarrow> NInf
    | (Fin _, PInf) \<Rightarrow> NInf | (Fin _, NInf) \<Rightarrow> PInf
    | (Fin x, Fin y) \<Rightarrow> Fin (x - y))"

definition js_sgn :: "jsnum \<Rightarrow> real" where
  "js_sgn a = (case a of NaN \<Rightarrow> 0 | PInf \<Rightarrow> 1 | NInf \<Rightarrow> -1 | Fin x \<Rightarrow> sgn x)"

definition js_inf :: "real \<Rightarrow> jsnum" where
  "js_inf s = (if s = 0 then NaN else if 0 < s then PInf else NInf)"

definition js_mul :: "jsnum \<Rightarrow> jsnum \<Rightarrow> jsnum" where
  "js_mul a b = (case (a, b) of
      (NaN, _) \<Rightarrow> NaN | (_, NaN) \<Rightarrow> NaN
    | (Fin x, Fin y) \<Rightarrow> Fin (x * y)
    | _ \<Rightarrow> js_inf (js_sgn a * js_sgn b))"

definition js_div :: "jsnum \<Rightarrow> jsnum \<Rightarrow> jsnum" where
  "js_div a b = (case (a, b) of
      (NaN, _) \<Rightarrow> NaN | (_, NaN) \<Rightarrow> NaN
    | (Fin x, Fin y) \<Rightarrow> (if y = 0 then js_inf (sgn x) else Fin (x / y))
    | (Fin _, _) \<Rightarrow> Fin 0
    | (_, Fin y) \<Rightarrow> (if y = 0 then a else js_inf (js_sgn a * sgn y))
    | _ \<Rightarrow> NaN)"

definition js_ceil :: "jsnum \<Rightarrow> jsnum" where
  "js_ceil a = (case a of Fin x \<Rightarrow> Fin (of_int \<lceil>x\<rceil>) | _ \<Rightarrow> a)"

text \<open>\<open>a <= b\<close> on numbers; false when either side is \<open>NaN\<close>.\<close>

definition js_le :: "jsnum \<Rightarrow> jsnum \<Rightarrow> bool" where
  "js_le a b = (case (a, b) of
      (NaN, _) \<Rightarrow> False | (_, NaN) \<Rightarrow> False
    | (NInf, _) \<Rightarrow> True | (_, PInf) \<Rightarrow> True
    | (Fin x, Fin y) \<Rightarrow> x \<le> y
    | _ \<Rightarrow> False)"

subsection \<open>Strings\<close>

definition is_ws :: "char \<Rightarrow> bool" where
  "is_ws c = (c \<in> set [CHR 0x09, CHR 0x0A, CHR 0x0B, CHR 0x0C, CHR 0x0D, CHR '' ''])"

definition trim :: "string \<Rightarrow> string" where
  "trim s = rev (dropWhile is_ws (rev (dropWhile is_ws s)))"

text \<open>\<open>s.split(c)\<close> for a one-character separator, and \<open>xs.join(sep)\<close>.\<close>

fun split :: "char \<Rightarrow> string \<Rightarrow> string list" where
  "split c [] = [[]]"
| "split c (x # xs) =
     (if x = c then [] # split c xs
      else (case split c xs of w # ws \<Rightarrow> (x # w) # ws | [] \<Rightarrow> [[x]]))"

fun join :: "string \<Rightarrow> string list \<Rightarrow> string" where
  "join sep [] = []"
| "join sep [w] = w"
| "join sep (w # ws) = w @ sep @ join sep ws"

fun string_of_nat :: "nat \<Rightarrow> string" where
  "string_of_nat n =
     (if n < 10 then [char_of (48 + n)]
      else string_of_nat (n div 10) @ [char_of (48 + n mod 10)])"

subsection \<open>\<open>Number(s)\<close> on a string\<close>

definition digit_of :: "nat \<Rightarrow> char \<Rightarrow> nat option" where
  "digit_of base c =
     (let k = (of_char c :: nat);
          v = (if 48 \<le> k \<and> k \<le> 57 then Some (k - 48)
               else if 97 \<le> k \<and> k \<le> 102 then Some (k - 87)
               else if 65 \<le> k \<and> k \<le> 70 then Some (k - 55)
               else None)
      in case v of Some d \<Rightarrow> (if d < base then Some d else None) | None \<Rightarrow> None)"

definition all_digits :: "nat \<Rightarrow> string \<Rightarrow> bool" where
  "all_digits base s = list_all (\<lambda>c. digit_of base c \<noteq> None) s"

definition digits_value :: "nat \<Rightarrow> string \<Rightarrow> nat" where
  "digits_value base s =
     foldl (\<lambda>acc c. acc * base + (case digit_of base c of Some d \<Rightarrow> d | None \<Rightarrow> 0)) 0 s"

text \<open>An exponent part: the text after \<open>e\<close> or \<open>E\<close>, a signed run of decimal digits.\<close>

definition parse_exponent :: "string \<Rightarrow> int option" where
  "parse_exponent s =
     (let (neg, ds) = (case s of c # r \<Rightarrow>
                          (if c = CHR ''-'' then (True, r)
                           else if c = CHR ''+'' then (False, r) else (False, s))
                        | [] \<Rightarrow> (False, s))
      in if ds = [] \<or> \<not> all_digits 10 ds then None
         else Some (if neg then - int (digits_value 10 ds) else int (digits_value 10 ds)))"

text \<open>An unsigned decimal literal: digits, an optional fraction, an optional exponent.\<close>

definition parse_decimal :: "string \<Rightarrow> real option" where
  "parse_decimal s =
     (let mant = takeWhile (\<lambda>c. c \<noteq> CHR ''e'' \<and> c \<noteq> CHR ''E'') s;
          rest = dropWhile (\<lambda>c. c \<noteq> CHR ''e'' \<and> c \<noteq> CHR ''E'') s;
          ex = (if rest = [] then Some 0 else parse_exponent (tl rest));
          ip = takeWhile (\<lambda>c. c \<noteq> CHR ''.'') mant;
          dot = dropWhile (\<lambda>c. c \<noteq> CHR ''.'') mant;
          fp = (if dot = [] then [] else tl dot)
      in if \<not> all_digits 10 ip \<or> \<not> all_digits 10 fp \<or> (ip = [] \<and> fp = []) then None
         else (case ex of
                 None \<Rightarrow> None
               | Some e \<Rightarrow>
                   (let m = real (digits_value 10 ip)
                            + real (digits_value 10 fp) / 10 ^ length fp
                    in Some (if 0 \<le> e then m * 10 ^ nat e else m / 10 ^ nat (- e)))))"

text \<open>A literal with a radix prefix (\<open>0x\<close>, \<open>0o\<close>, \<open>0b\<close>); it takes no sign.\<close>

definition parse_radix :: "string \<Rightarrow> real option" where
  "parse_radix s =
     (case s of
        z # p # ds \<Rightarrow>
          (let base = (if p = CHR ''x'' \<or> p = CHR ''X'' then 16
                       else if p = CHR ''o'' \<or> p = CHR ''O'' then 8
                       else if p = CHR ''b'' \<or> p = CHR ''B'' then 2 else (0::nat))
           in if z = CHR ''0'' \<and> base \<noteq> 0 \<and> ds \<noteq> [] \<and> all_digits base ds
              then Some (real (digits_value base ds)) else None)
      | _ \<Rightarrow> None)"

definition Number :: "string \<Rightarrow> jsnum" where
  "Number str =
     (let s = trim str in
      if s = [] then Fin 0
      else case parse_radix s of
        Some v \<Rightarrow> Fin v
      | None \<Rightarrow>
          (let (neg, u) = (case s of c # r \<Rightarrow>
                              (if c = CHR ''-'' then (True, r)
                               else if c = CHR ''+'' then (False, r) else (False, s))
                            | [] \<Rightarrow> (False, s))
           in if u = ''Infinity'' then (if neg then NInf else PInf)
              else case parse_decimal u of
                     Some v \<Rightarrow> Fin (if neg then - v else v)
                   | None \<Rightarrow> NaN))"

declare string_of_nat.simps [simp del]

section \<open>Documents, errors and responses\<close>

text \<open>
  A stored product document (\<open>models/Product.js\<close>): the three schema paths, the
  identifier \<open>_id\<close> (a 24-digit lower-case hexadecimal string), the two timestamps that
  \<open>timestamps: true\<close> adds (milliseconds) and the version key \<open>__v\<close>.
\<close>

record product =
  pid :: string
  pname :: string
  pprice :: real
  pcategory :: string
  createdAt :: nat
  updatedAt :: nat
  version :: nat

text \<open>
  The fields \<open>{ name, price, category }\<close> that the create and update handlers read from
  the body, which is an object (the JSON parser leaves \<open>{}\<close> when none was sent).
\<close>

record product_input =
  name :: "string field"
  price :: "real field"
  category :: "string field"

text \<open>
  What a persistence call can throw, as far as the handlers look at it:
  \<open>error.name === 'ValidationError'\<close> with \<open>error.errors\<close> (path and message, in order),
  \<open>error.kind\<close> of a cast error, and \<open>error.message\<close>.
\<close>

datatype error =
    ValidationError "(string \<times> string) list"
  | CastError string string
  | OtherError string

definition error_kind :: "error \<Rightarrow> string option" where
  "error_kind e = (case e of CastError k _ \<Rightarrow> Some k | _ \<Rightarrow> None)"

definition error_message :: "error \<Rightarrow> string" where
  "error_message e =
     (case e of
        ValidationError errs \<Rightarrow>
          ''Product validation failed: '' @ join '', '' (map (\<lambda>(p, m). p @ '': '' @ m) errs)
      | CastError _ m \<Rightarrow> m
      | OtherError m \<Rightarrow> m)"

text \<open>A value of the JSON response body; a number that is not finite is sent as \<open>null\<close>.\<close>

datatype jval =
    JNull
  | JBool bool
  | JNum real
  | JStr string
  | JStrs "string list"
  | JDoc product
  | JDocs "product list"

definition json_of_num :: "jsnum \<Rightarrow> jval" where
  "json_of_num a = (case a of Fin x \<Rightarrow> JNum x | _ \<Rightarrow> JNull)"

definition json_of_doc :: "product option \<Rightarrow> jval" where
  "json_of_doc d = (case d of Some p \<Rightarrow> JDoc p | None \<Rightarrow> JNull)"

text \<open>\<open>res.status(code).json(body)\<close>: the status code and the body's keys in order.\<close>

record response =
  status :: nat
  json :: "(string \<times> jval) list"

section \<open>The persistence interface\<close>

text \<open>
  The filter object \<open>query\<close> that the list handler builds: an optional \<open>category\<close> and an
  optional \<open>price\<close> object with optional \<open>$gte\<close> and \<open>$lte\<close>.
\<close>

record price_cond =
  gte :: "jsnum option"
  lte :: "jsnum option"

record mquery =
  category_eq :: "string option"
  price_range :: "price_cond option"

definition empty_query :: mquery where
  "empty_query = \<lparr>category_eq = None, price_range = None\<rparr>"

text \<open>What the environment supplies to a write: the clock and the generated identifier.\<close>

record env =
  now :: nat
  newId :: string

text \<open>
  The calls the handlers make on the \<open>Product\<close> model, over a store \<open>'db\<close>. A call returns
  its result or the error it throws; a write also returns the store. \<open>find_docs\<close> takes
  the filter and the arguments of \<open>.sort\<close>, \<open>.limit\<close> and \<open>.skip\<close> where given.
\<close>

record 'db model =
  create :: "env \<Rightarrow> product_input \<Rightarrow> 'db \<Rightarrow> (error + product) \<times> 'db"
  find_docs :: "mquery \<Rightarrow> string option \<Rightarrow> jsnum option \<Rightarrow> jsnum option \<Rightarrow> 'db
                 \<Rightarrow> error + product list"
  countDocuments :: "mquery \<Rightarrow> 'db \<Rightarrow> error + nat"
  findById :: "string \<Rightarrow> 'db \<Rightarrow> error + product option"
  findByIdAndUpdate :: "env \<Rightarrow> string \<Rightarrow> product_input \<Rightarrow> 'db
                         \<Rightarrow> (error + product option) \<times> 'db"
  findByIdAndDelete :: "string \<Rightarrow> 'db \<Rightarrow> (error + product option) \<times> 'db"
  deleteMany :: "mquery \<Rightarrow> 'db \<Rightarrow> (error + nat) \<times> 'db"

text \<open>The static \<open>findByCategory\<close> of \<open>models/Product.js\<close>: \<open>this.find({ category })\<close>.\<close>

definition findByCategory :: "'db model \<Rightarrow> string \<Rightarrow> 'db \<Rightarrow> error + product list" where
  "findByCategory P c db =
     find_docs P \<lparr>category_eq = Some c, price_range = None\<rparr> None None None db"

section \<open>The request handlers\<close>

definition server_error :: "error \<Rightarrow> response" where
  "server_error e =
     \<lparr>status = 500,
      json = [(''success'', JBool False), (''message'', JStr ''Server Error''),
              (''error'', JStr (error_message e))]\<rparr>"

definition validation_error :: "(string \<times> string) list \<Rightarrow> response" where
  "validation_error errs =
     \<lparr>status = 400,
      json = [(''success'', JBool False), (''message'', JStr ''Validation Error''),
              (''errors'', JStrs (map snd errs))]\<rparr>"

definition not_found :: "string \<Rightarrow> response" where
  "not_found i =
     \<lparr>status = 404,
      json = [(''success'', JBool False),
              (''message'', JStr (''Product not found with ID: '' @ i))]\<rparr>"

definition invalid_id :: "string \<Rightarrow> response" where
  "invalid_id i =
     \<lparr>status = 404,
      json = [(''success'', JBool False),
              (''message'', JStr (''Invalid product ID: '' @ i))]\<rparr>"

definition missing_fields :: response where
  "missing_fields =
     \<lparr>status = 400,
      json = [(''success'', JBool False),
              (''message'',
               JStr ''Please provide all required fields: name, price, and category'')]\<rparr>"

text \<open>The \<open>catch\<close> blocks: of create, of update, and of get and delete by id.\<close>

definition catch_create :: "error \<Rightarrow> response" where
  "catch_create e =
     (case e of ValidationError errs \<Rightarrow> validation_error errs | _ \<Rightarrow> server_error e)"

definition catch_by_id :: "string \<Rightarrow> error \<Rightarrow> response" where
  "catch_by_id i e =
     (if error_kind e = Some ''ObjectId'' then invalid_id i else server_error e)"

definition catch_update :: "string \<Rightarrow> error \<Rightarrow> response" where
  "catch_update i e =
     (case e of ValidationError errs \<Rightarrow> validation_error errs | _ \<Rightarrow> catch_by_id i e)"

definition createProduct ::
  "'db model \<Rightarrow> env \<Rightarrow> product_input \<Rightarrow> 'db \<Rightarrow> response \<times> 'db" where
  "createProduct P ev b db =
     (if falsy_str (name b) \<or> falsy_num (price b) \<or> falsy_str (category b)
      then (missing_fields, db)
      else (case create P ev \<lparr>name = name b, price = price b, category = category b\<rparr> db of
              (Inr p, db') \<Rightarrow>
                (\<lparr>status = 201,
                  json = [(''success'', JBool True),
                          (''message'', JStr ''Product created successfully''),
                          (''data'', JDoc p)]\<rparr>, db')
            | (Inl e, db') \<Rightarrow> (catch_create e, db')))"

text \<open>The query string of the list request; each parameter is absent or a string.\<close>

record list_query =
  qcategory :: "string option"
  qminPrice :: "string option"
  qmaxPrice :: "string option"
  qsort :: "string option"
  qpage :: "string option"
  qlimit :: "string option"

text \<open>\<open>Number(page)\<close> and \<open>Number(limit)\<close> after the defaults \<open>page = 1\<close>, \<open>limit = 10\<close>.\<close>

definition page_number :: "list_query \<Rightarrow> jsnum" where
  "page_number q = (case qpage q of None \<Rightarrow> Fin 1 | Some s \<Rightarrow> Number s)"

definition limit_number :: "list_query \<Rightarrow> jsnum" where
  "limit_number q = (case qlimit q of None \<Rightarrow> Fin 10 | Some s \<Rightarrow> Number s)"

definition build_query :: "list_query \<Rightarrow> mquery" where
  "build_query q =
     \<lparr>category_eq = (if truthy (qcategory q) then qcategory q else None),
      price_range =
        (if truthy (qminPrice q) \<or> truthy (qmaxPrice q)
         then Some \<lparr>gte = (if truthy (qminPrice q) then map_option Number (qminPrice q)
                           else None),
                    lte = (if truthy (qmaxPrice q) then map_option Number (qmaxPrice q)
                           else None)\<rparr>
         else None)\<rparr>"

definition sort_option :: "list_query \<Rightarrow> string" where
  "sort_option q =
     (case qsort q of
        Some s \<Rightarrow> (if s \<noteq> [] then join '' '' (split CHR '','' s) else ''-createdAt'')
      | None \<Rightarrow> ''-createdAt'')"

definition skip_number :: "list_query \<Rightarrow> jsnum" where
  "skip_number q = js_mul (js_sub (page_number q) (Fin 1)) (limit_number q)"

definition getAllProducts :: "'db model \<Rightarrow> list_query \<Rightarrow> 'db \<Rightarrow> response" where
  "getAllProducts P q db =
     (case find_docs P (build_query q) (Some (sort_option q)) (Some (limit_number q))
             (Some (skip_number q)) db of
        Inl e \<Rightarrow> server_error e
      | Inr products \<Rightarrow>
          (case countDocuments P (build_query q) db of
             Inl e \<Rightarrow> server_error e
           | Inr totalCount \<Rightarrow>
               \<lparr>status = 200,
                json = [(''success'', JBool True),
                        (''count'', JNum (real (length products))),
                        (''total'', JNum (real totalCount)),
                        (''page'', json_of_num (page_number q)),
                        (''totalPages'',
                         json_of_num (js_ceil (js_div (Fin (real totalCount)) (limit_number q)))),
                        (''data'', JDocs products)]\<rparr>))"

definition getProductById :: "'db model \<Rightarrow> string \<Rightarrow> 'db \<Rightarrow> response" where
  "getProductById P i db =
     (case findById P i db of
        Inl e \<Rightarrow> catch_by_id i e
      | Inr None \<Rightarrow> not_found i
      | Inr (Some p) \<Rightarrow>
          \<lparr>status = 200, json = [(''success'', JBool True), (''data'', JDoc p)]\<rparr>)"

definition updateProduct ::
  "'db model \<Rightarrow> env \<Rightarrow> string \<Rightarrow> product_input \<Rightarrow> 'db \<Rightarrow> response \<times> 'db" where
  "updateProduct P ev i b db =
     (case findById P i db of
        Inl e \<Rightarrow> (catch_update i e, db)
      | Inr None \<Rightarrow> (not_found i, db)
      | Inr (Some _) \<Rightarrow>
          (case findByIdAndUpdate P ev i
                  \<lparr>name = name b, price = price b, category = category b\<rparr> db of
             (Inl e, db') \<Rightarrow> (catch_update i e, db')
           | (Inr p, db') \<Rightarrow>
               (\<lparr>status = 200,
                 json = [(''success'', JBool True),
                         (''message'', JStr ''Product updated successfully''),
                         (''data'', json_of_doc p)]\<rparr>, db')))"

definition deleteProduct :: "'db model \<Rightarrow> string \<Rightarrow> 'db \<Rightarrow> response \<times> 'db" where
  "deleteProduct P i db =
     (case findById P i db of
        Inl e \<Rightarrow> (catch_by_id i e, db)
      | Inr None \<Rightarrow> (not_found i, db)
      | Inr (Some p) \<Rightarrow>
          (case findByIdAndDelete P i db of
             (Inl e, db') \<Rightarrow> (catch_by_id i e, db')
           | (Inr _, db') \<Rightarrow>
               (\<lparr>status = 200,
                 json = [(''success'', JBool True),
                         (''message'', JStr ''Product deleted successfully''),
                         (''data'', JDoc p)]\<rparr>, db')))"

definition deleteAllProducts :: "'db model \<Rightarrow> 'db \<Rightarrow> response \<times> 'db" where
  "deleteAllProducts P db =
     (case deleteMany P empty_query db of
        (Inl e, db') \<Rightarrow> (server_error e, db')
      | (Inr n, db') \<Rightarrow>
          (\<lparr>status = 200,
            json = [(''success'', JBool True),
                    (''message'',
                     JStr (''Successfully deleted '' @ string_of_nat n @ '' products'')),
                    (''deletedCount'', JNum (real n))]\<rparr>, db'))"

definition getProductsByCategory :: "'db model \<Rightarrow> string \<Rightarrow> 'db \<Rightarrow> response" where
  "getProductsByCategory P c db =
     (case findByCategory P c db of
        Inl e \<Rightarrow> server_error e
      | Inr products \<Rightarrow>
          \<lparr>status = 200,
           json = [(''success'', JBool True), (''count'', JNum (real (length products))),
                   (''data'', JDocs products)]\<rparr>)"

section \<open>The Mongoose model over an in-memory collection\<close>

text \<open>
  The calls of the Mongoose library (version 6 or later) behind \<open>Product\<close>, on a
  collection held as a list in insertion order. The library is not part of the
  repository; its calls follow its documented behaviour. The schema of
  \<open>models/Product.js\<close> fixes what they check: the setter \<open>trim\<close>
  runs before the validators of a string path; the validators of a path run in the
  order declared (\<open>required\<close> first) and the first one that fails gives the path's
  message; the errors of all paths are collected in schema order. On an update, keys
  whose value is \<open>undefined\<close> are dropped before casting, and only the paths that are
  left are validated.
\<close>

type_synonym collection = "product list"

definition categories :: "string list" where
  "categories = [''Electronics'', ''Clothing'', ''Food'', ''Books'', ''Toys'',
                 ''Accessories'', ''Stationery'', ''Other'']"

definition set_str :: "string field \<Rightarrow> string field" where
  "set_str v = (case v of Val s \<Rightarrow> Val (trim s) | _ \<Rightarrow> v)"

definition check_name :: "string field \<Rightarrow> (string \<times> string) + string" where
  "check_name v =
     (case v of
        Val s \<Rightarrow>
          (if s = [] then Inl (''name'', ''Product name is required'')
           else if length s < 3
             then Inl (''name'', ''Product name must be at least 3 characters long'')
           else if 100 < length s
             then Inl (''name'', ''Product name cannot exceed 100 characters'')
           else Inr s)
      | _ \<Rightarrow> Inl (''name'', ''Product name is required''))"

definition check_price :: "real field \<Rightarrow> (string \<times> string) + real" where
  "check_price v =
     (case v of
        Val r \<Rightarrow>
          (if r < 0 then Inl (''price'', ''Price cannot be negative'')
           else if \<not> 0 \<le> r then Inl (''price'', ''Price must be a positive number'')
           else Inr r)
      | _ \<Rightarrow> Inl (''price'', ''Product price is required''))"

definition check_category :: "string field \<Rightarrow> (string \<times> string) + string" where
  "check_category v =
     (case v of
        Val s \<Rightarrow>
          (if s = [] then Inl (''category'', ''Product category is required'')
           else if s \<notin> set categories
             then Inl (''category'', s @ '' is not a valid category'')
           else Inr s)
      | _ \<Rightarrow> Inl (''category'', ''Product category is required''))"

definition errs_of :: "'e + 'a \<Rightarrow> 'e list" where
  "errs_of r = (case r of Inl e \<Rightarrow> [e] | Inr _ \<Rightarrow> [])"

subsection \<open>Identifiers\<close>

text \<open>
  An identifier string casts to an ObjectId when it is 24 hexadecimal digits; the
  digits are compared without regard to case.
\<close>

definition is_object_id :: "string \<Rightarrow> bool" where
  "is_object_id i = (length i = 24 \<and> all_digits 16 i)"

definition lower_hex :: "char \<Rightarrow> char" where
  "lower_hex c =
     (if 65 \<le> (of_char c :: nat) \<and> (of_char c :: nat) \<le> 70
      then char_of ((of_char c :: nat) + 32) else c)"


definition cast_failed :: "string \<Rightarrow> string \<Rightarrow> string \<Rightarrow> string" where
  "cast_failed kind v path =
     ''Cast to '' @ kind @ '' failed for value '' @ [CHR 0x22] @ v @ [CHR 0x22]
       @ '' at path '' @ [CHR 0x22] @ path @ [CHR 0x22]"

definition cast_object_id :: "string \<Rightarrow> error + string" where
  "cast_object_id i =
     (if is_object_id i then Inr (map lower_hex i)
      else Inl (CastError ''ObjectId'' (cast_failed ''ObjectId'' i ''_id'')))"

subsection \<open>Filters\<close>

definition cast_query :: "mquery \<Rightarrow> error + mquery" where
  "cast_query q =
     (case price_range q of
        Some r \<Rightarrow>
          (if gte r = Some NaN \<or> lte r = Some NaN
           then Inl (CastError ''Number'' (cast_failed ''Number'' ''NaN'' ''price''))
           else Inr (q\<lparr>category_eq := map_option trim (category_eq q)\<rparr>))
      | None \<Rightarrow> Inr (q\<lparr>category_eq := map_option trim (category_eq q)\<rparr>))"

definition matches :: "mquery \<Rightarrow> product \<Rightarrow> bool" where
  "matches q p =
     ((case category_eq q of None \<Rightarrow> True | Some c \<Rightarrow> pcategory p = c) \<and>
      (case price_range q of
         None \<Rightarrow> True
       | Some r \<Rightarrow>
           (gte r \<noteq> None \<or> lte r \<noteq> None) \<and>
           (case gte r of None \<Rightarrow> True | Some a \<Rightarrow> js_le a (Fin (pprice p))) \<and>
           (case lte r of None \<Rightarrow> True | Some b \<Rightarrow> js_le (Fin (pprice p)) b)))"

subsection \<open>Sorting\<close>

text \<open>
  The value a document is ordered by under a field name, and the order of those
  values: by type first (null, numbers, strings, identifiers, dates), then by value.
\<close>

datatype skey = KNull | KNum real | KStr string | KOid string | KDate nat

definition key_of :: "string \<Rightarrow> product \<Rightarrow> skey" where
  "key_of f p =
     (if f = ''_id'' then KOid (pid p)
      else if f = ''name'' then KStr (pname p)
      else if f = ''price'' then KNum (pprice p)
      else if f = ''category'' then KStr (pcategory p)
      else if f = ''createdAt'' then KDate (createdAt p)
      else if f = ''updatedAt'' then KDate (updatedAt p)
      else if f = ''__v'' then KNum (real (version p))
      else KNull)"

definition rank :: "skey \<Rightarrow> nat" where
  "rank k = (case k of KNull \<Rightarrow> 0 | KNum _ \<Rightarrow> 1 | KStr _ \<Rightarrow> 2 | KOid _ \<Rightarrow> 3 | KDate _ \<Rightarrow> 4)"

definition key_le :: "skey \<Rightarrow> skey \<Rightarrow> bool" where
  "key_le a b =
     (case (a, b) of
        (KNum x, KNum y) \<Rightarrow> x \<le> y
      | (KStr x, KStr y) \<Rightarrow> x \<le> y
      | (KOid x, KOid y) \<Rightarrow> x \<le> y
      | (KDate x, KDate y) \<Rightarrow> x \<le> y
      | _ \<Rightarrow> rank a \<le> rank b)"

text \<open>
  The sort string as \<open>Query.sort\<close> reads it: properties separated by a space, a leading
  \<open>-\<close> for descending; a property named twice keeps its first place and its last
  direction. \<open>True\<close> is ascending.
\<close>

definition parse_property :: "string \<Rightarrow> string \<times> bool" where
  "parse_property w =
     (case w of c # r \<Rightarrow> (if c = CHR ''-'' then (r, False) else (w, True)) | [] \<Rightarrow> (w, True))"

definition parse_sort :: "string \<Rightarrow> (string \<times> bool) list" where
  "parse_sort arg =
     foldl (\<lambda>acc w. AList.update (fst (parse_property w)) (snd (parse_property w)) acc) []
       (if CHR '' '' \<notin> set arg then [arg] else split CHR '' '' arg)"

text \<open>The composite order of two documents under a list of fields and directions.\<close>

fun doc_le :: "(string \<times> bool) list \<Rightarrow> product \<Rightarrow> product \<Rightarrow> bool" where
  "doc_le [] a b = True"
| "doc_le ((f, asc) # r) a b =
     (if key_of f a = key_of f b then doc_le r a b
      else if asc then key_le (key_of f a) (key_of f b)
      else key_le (key_of f b) (key_of f a))"

fun insert_by :: "('a \<Rightarrow> 'a \<Rightarrow> bool) \<Rightarrow> 'a \<Rightarrow> 'a list \<Rightarrow> 'a list" where
  "insert_by le x [] = [x]"
| "insert_by le x (y # ys) = (if le x y then x # y # ys else y # insert_by le x ys)"

definition sort_by :: "('a \<Rightarrow> 'a \<Rightarrow> bool) \<Rightarrow> 'a list \<Rightarrow> 'a list" where
  "sort_by le xs = foldr (insert_by le) xs []"

subsection \<open>The calls\<close>

definition as_int :: "jsnum \<Rightarrow> int option" where
  "as_int a = (case a of Fin r \<Rightarrow> (if of_int \<lfloor>r\<rfloor> = r then Some \<lfloor>r\<rfloor> else None) | _ \<Rightarrow> None)"

text \<open>
  \<open>find\<close> casts the filter, sorts the matching documents, skips and then limits. A
  skip that is not a natural number, or a limit that is not an integer, is rejected;
  a limit of 0 is no limit and a negative limit stands for its absolute value.
\<close>

definition window :: "int \<Rightarrow> int \<Rightarrow> 'a list \<Rightarrow> 'a list" where
  "window k l xs = (if l = 0 then drop (nat k) xs else take (nat \<bar>l\<bar>) (drop (nat k) xs))"

definition Product_find ::
  "mquery \<Rightarrow> string option \<Rightarrow> jsnum option \<Rightarrow> jsnum option \<Rightarrow> collection
     \<Rightarrow> error + product list" where
  "Product_find q sortArg limitArg skipArg coll =
     (case cast_query q of
        Inl e \<Rightarrow> Inl e
      | Inr q' \<Rightarrow>
          (let found = filter (matches q') coll;
               sorted = (case sortArg of None \<Rightarrow> found
                         | Some s \<Rightarrow> sort_by (doc_le (parse_sort s)) found)
           in case (case skipArg of None \<Rightarrow> Some 0 | Some a \<Rightarrow> as_int a) of
                None \<Rightarrow> Inl (OtherError ''skip must be an integer'')
              | Some k \<Rightarrow>
                  (if k < 0 then Inl (OtherError ''skip must be non-negative'')
                   else case (case limitArg of None \<Rightarrow> Some 0 | Some a \<Rightarrow> as_int a) of
                          None \<Rightarrow> Inl (OtherError ''limit must be an integer'')
                        | Some l \<Rightarrow> Inr (window k l sorted))))"

definition Product_countDocuments :: "mquery \<Rightarrow> collection \<Rightarrow> error + nat" where
  "Product_countDocuments q coll =
     (case cast_query q of
        Inl e \<Rightarrow> Inl e
      | Inr q' \<Rightarrow> Inr (length (filter (matches q') coll)))"

text \<open>
  \<open>create\<close> validates the three paths and inserts the document with the generated
  identifier, both timestamps set to the clock and version 0; the store refuses an
  identifier it already holds.
\<close>

definition Product_create ::
  "env \<Rightarrow> product_input \<Rightarrow> collection \<Rightarrow> (error + product) \<times> collection" where
  "Product_create ev b coll =
     (case (check_name (set_str (name b)), check_price (price b),
            check_category (set_str (category b))) of
        (Inr n, Inr p, Inr c) \<Rightarrow>
          (if newId ev \<in> set (map pid coll)
           then (Inl (OtherError ''E11000 duplicate key error''), coll)
           else (Inr \<lparr>pid = newId ev, pname = n, pprice = p, pcategory = c,
                      createdAt = now ev, updatedAt = now ev, version = 0\<rparr>,
                 coll @ [\<lparr>pid = newId ev, pname = n, pprice = p, pcategory = c,
                          createdAt = now ev, updatedAt = now ev, version = 0\<rparr>]))
      | (rn, rp, rc) \<Rightarrow>
          (Inl (ValidationError (errs_of rn @ errs_of rp @ errs_of rc)), coll))"

definition Product_findById :: "string \<Rightarrow> collection \<Rightarrow> error + product option" where
  "Product_findById i coll =
     (case cast_object_id i of
        Inl e \<Rightarrow> Inl e
      | Inr oid \<Rightarrow> Inr (List.find (\<lambda>d. pid d = oid) coll))"

fun update_first :: "string \<Rightarrow> product \<Rightarrow> collection \<Rightarrow> collection" where
  "update_first i d [] = []"
| "update_first i d (x # xs) = (if pid x = i then d # xs else x # update_first i d xs)"

text \<open>
  The validation errors of the paths a body sets; a key whose value is \<open>undefined\<close>
  sets nothing. These are the errors of the update validators, and the errors of a
  create when no field is \<open>undefined\<close>.
\<close>

definition path_errors :: "product_input \<Rightarrow> (string \<times> string) list" where
  "path_errors b =
     (if name b = Undefined then [] else errs_of (check_name (set_str (name b)))) @
     (if price b = Undefined then [] else errs_of (check_price (price b))) @
     (if category b = Undefined then [] else errs_of (check_category (set_str (category b))))"

definition apply_update :: "env \<Rightarrow> product_input \<Rightarrow> product \<Rightarrow> product" where
  "apply_update ev b d =
     d\<lparr>pname := (case set_str (name b) of Val s \<Rightarrow> s | _ \<Rightarrow> pname d),
       pprice := (case price b of Val r \<Rightarrow> r | _ \<Rightarrow> pprice d),
       pcategory := (case set_str (category b) of Val s \<Rightarrow> s | _ \<Rightarrow> pcategory d),
       updatedAt := now ev\<rparr>"

definition Product_findByIdAndUpdate ::
  "env \<Rightarrow> string \<Rightarrow> product_input \<Rightarrow> collection
     \<Rightarrow> (error + product option) \<times> collection" where
  "Product_findByIdAndUpdate ev i b coll =
     (case cast_object_id i of
        Inl e \<Rightarrow> (Inl e, coll)
      | Inr oid \<Rightarrow>
          (if path_errors b \<noteq> [] then (Inl (ValidationError (path_errors b)), coll)
           else case List.find (\<lambda>d. pid d = oid) coll of
                  None \<Rightarrow> (Inr None, coll)
                | Some d \<Rightarrow>
                    (Inr (Some (apply_update ev b d)),
                     update_first oid (apply_update ev b d) coll)))"

definition Product_findByIdAndDelete ::
  "string \<Rightarrow> collection \<Rightarrow> (error + product option) \<times> collection" where
  "Product_findByIdAndDelete i coll =
     (case cast_object_id i of
        Inl e \<Rightarrow> (Inl e, coll)
      | Inr oid \<Rightarrow>
          (case List.find (\<lambda>d. pid d = oid) coll of
             None \<Rightarrow> (Inr None, coll)
           | Some d \<Rightarrow> (Inr (Some d), remove1 d coll)))"

definition Product_deleteMany :: "mquery \<Rightarrow> collection \<Rightarrow> (error + nat) \<times> collection" where
  "Product_deleteMany q coll =
     (case cast_query q of
        Inl e \<Rightarrow> (Inl e, coll)
      | Inr q' \<Rightarrow>
          (Inr (length (filter (matches q') coll)), filter (\<lambda>d. \<not> matches q' d) coll))"

definition Product :: "collection model" where
  "Product =
     \<lparr>create = Product_create, find_docs = Product_find,
      countDocuments = Product_countDocuments, findById = Product_findById,
      findByIdAndUpdate = Product_findByIdAndUpdate,
      findByIdAndDelete = Product_findByIdAndDelete, deleteMany = Product_deleteMany\<rparr>"

section \<open>Properties the specification words\<close>

text \<open>
  The envelope rule: the body carries a boolean \<open>success\<close>, true exactly on status 200
  or 201, and the status is one of 200, 201, 400, 404 and 500.
\<close>

definition envelope_ok :: "response \<Rightarrow> bool" where
  "envelope_ok r =
     (map_of (json r) ''success'' = Some (JBool (status r = 200 \<or> status r = 201)) \<and>
      status r \<in> set [200, 201, 400, 404, 500])"

text \<open>
  An error that names which of name, price and category is absent: its message
  mentions a field exactly when the body lacks it.
\<close>

fun contains :: "string \<Rightarrow> string \<Rightarrow> bool" where
  "contains w [] = (w = [])"
| "contains w (c # s) = (take (length w) (c # s) = w \<or> contains w s)"

definition names_absent_fields :: "product_input \<Rightarrow> response \<Rightarrow> bool" where
  "names_absent_fields b r =
     (case map_of (json r) ''message'' of
        Some (JStr m) \<Rightarrow>
          contains ''name'' m = (name b = Undefined) \<and>
          contains ''price'' m = (price b = Undefined) \<and>
          contains ''category'' m = (category b = Undefined)
      | _ \<Rightarrow> False)"



text \<open>The fields of a response body, by key.\<close>

definition body_docs :: "response \<Rightarrow> product list option" where
  "body_docs r = (case map_of (json r) ''data'' of Some (JDocs ds) \<Rightarrow> Some ds | _ \<Rightarrow> None)"


definition body_num :: "string \<Rightarrow> response \<Rightarrow> real option" where
  "body_num k r = (case map_of (json r) k of Some (JNum x) \<Rightarrow> Some x | _ \<Rightarrow> None)"




section \<open>Example data\<close>

definition example_env :: env where
  "example_env = \<lparr>now = 1000, newId = ''0123456789abcdef01234567''\<rparr>"

definition mouse :: product where
  "mouse = \<lparr>pid = ''aaaaaaaaaaaaaaaaaaaaaaaa'', pname = ''Mouse'', pprice = 25,
            pcategory = ''Electronics'', createdAt = 500, updatedAt = 500, version = 0\<rparr>"

definition novel :: product where
  "novel = \<lparr>pid = ''bbbbbbbbbbbbbbbbbbbbbbbb'', pname = ''Novel'', pprice = 600,
            pcategory = ''Books'', createdAt = 600, updatedAt = 600, version = 0\<rparr>"

definition camera :: product where
  "camera = \<lparr>pid = ''cccccccccccccccccccccccc'', pname = ''Camera'', pprice = 1500,
             pcategory = ''Electronics'', createdAt = 700, updatedAt = 700, version = 0\<rparr>"

definition desk :: product where
  "desk = \<lparr>pid = ''dddddddddddddddddddddddd'', pname = ''Desk'', pprice = 2500,
           pcategory = ''Other'', createdAt = 800, updatedAt = 800, version = 0\<rparr>"

definition example_store :: collection where
  "example_store = [mouse, novel, camera, desk]"

definition no_params :: list_query where
  "no_params = \<lparr>qcategory = None, qminPrice = None, qmaxPrice = None, qsort = None,
                 qpage = None, qlimit = None\<rparr>"

section \<open>The response envelope\<close>

lemma envelope_server_error: "envelope_ok (server_error e)"
  by (simp add: envelope_ok_def server_error_def)

lemma envelope_validation_error: "envelope_ok (validation_error errs)"
  by (simp add: envelope_ok_def validation_error_def)

lemma envelope_not_found: "envelope_ok (not_found i)"
  by (simp add: envelope_ok_def not_found_def)

lemma envelope_invalid_id: "envelope_ok (invalid_id i)"
  by (simp add: envelope_ok_def invalid_id_def)

lemma envelope_missing_fields: "envelope_ok missing_fields"
  by (simp add: envelope_ok_def missing_fields_def)

lemma envelope_ok_200:
  "envelope_ok \<lparr>status = 200, json = (''success'', JBool True) # rest\<rparr>"
  by (simp add: envelope_ok_def)

lemma envelope_ok_201:
  "envelope_ok \<lparr>status = 201, json = (''success'', JBool True) # rest\<rparr>"
  by (simp add: envelope_ok_def)

lemma envelope_catch_create: "envelope_ok (catch_create e)"
  by (cases e) (simp_all add: catch_create_def envelope_server_error envelope_validation_error)

lemma envelope_catch_by_id: "envelope_ok (catch_by_id i e)"
  by (simp add: catch_by_id_def envelope_server_error envelope_invalid_id)

lemma envelope_catch_update: "envelope_ok (catch_update i e)"
  by (cases e) (simp_all add: catch_update_def envelope_catch_by_id envelope_validation_error)

lemma envelope_createProduct: "envelope_ok (fst (createProduct P ev b db))"
  by (simp add: createProduct_def envelope_missing_fields envelope_catch_create
      envelope_ok_201 split: prod.splits sum.splits)

lemma envelope_getAllProducts: "envelope_ok (getAllProducts P q db)"
  by (simp add: getAllProducts_def envelope_server_error envelope_ok_200 split: sum.splits)

lemma envelope_getProductById: "envelope_ok (getProductById P i db)"
  by (simp add: getProductById_def envelope_catch_by_id envelope_not_found envelope_ok_200
      split: sum.splits option.splits)

lemma envelope_updateProduct: "envelope_ok (fst (updateProduct P ev i b db))"
  by (simp add: updateProduct_def envelope_catch_update envelope_not_found envelope_ok_200
      split: sum.splits option.splits prod.splits)

lemma envelope_deleteProduct: "envelope_ok (fst (deleteProduct P i db))"
  by (simp add: deleteProduct_def envelope_catch_by_id envelope_not_found envelope_ok_200
      split: sum.splits option.splits prod.splits)

lemma envelope_deleteAllProducts: "envelope_ok (fst (deleteAllProducts P db))"
  by (simp add: deleteAllProducts_def envelope_server_error envelope_ok_200
      split: sum.splits prod.splits)

lemma envelope_getProductsByCategory: "envelope_ok (getProductsByCategory P c db)"
  by (simp add: getProductsByCategory_def envelope_server_error envelope_ok_200
      split: sum.splits)

text \<open>
  C10. Whatever the persistence calls return or throw, the body of each of the seven
  handlers' responses carries a boolean \<open>success\<close> that is true exactly when the status is
  200 or 201; the status is one of 200, 201, 400, 404 and 500, so \<open>success\<close> is false on
  every 400, 404 and 500.
\<close>

theorem envelope_of_every_handler:
  "envelope_ok (fst (createProduct P ev b db)) \<and>
   envelope_ok (getAllProducts P q db) \<and>
   envelope_ok (getProductById P i db) \<and>
   envelope_ok (fst (updateProduct P ev i b db)) \<and>
   envelope_ok (fst (deleteProduct P i db)) \<and>
   envelope_ok (fst (deleteAllProducts P db)) \<and>
   envelope_ok (getProductsByCategory P c db)"
  by (simp only: envelope_createProduct envelope_getAllProducts envelope_getProductById
      envelope_updateProduct envelope_deleteProduct envelope_deleteAllProducts
      envelope_getProductsByCategory simp_thms)

section \<open>Create with a missing field\<close>

text \<open>
  C2, as stated, fails: with only \<open>name\<close> absent the response is 400, but its message
  names \<open>price\<close> and \<open>category\<close> as well, so it does not say which field is absent.
\<close>

theorem create_missing_field_not_named:
  "status (fst (createProduct Product example_env
       \<lparr>name = Undefined, price = Val 5, category = Val ''Food''\<rparr> example_store)) = 400 \<and>
   \<not> names_absent_fields \<lparr>name = Undefined, price = Val 5, category = Val ''Food''\<rparr>
       (fst (createProduct Product example_env
          \<lparr>name = Undefined, price = Val 5, category = Val ''Food''\<rparr> example_store))"
  by (simp add: createProduct_def falsy_str_def missing_fields_def names_absent_fields_def)

text \<open>
  C2, amended. Whatever the persistence layer, a create request that lacks at least one
  of name, price and category is answered with status 400 and one fixed message, the
  same for every combination of absent fields, and the store is left as it was.
\<close>

theorem create_missing_field_fixed_message:
  assumes "name b = Undefined \<or> price b = Undefined \<or> category b = Undefined"
  shows "createProduct P ev b db =
     (\<lparr>status = 400,
       json = [(''success'', JBool False),
               (''message'',
                JStr ''Please provide all required fields: name, price, and category'')]\<rparr>,
      db)"
  using assms
  by (auto simp add: createProduct_def falsy_str_def falsy_num_def missing_fields_def)

theorem create_missing_field_fixed_message_witness:
  "createProduct Product example_env
      \<lparr>name = Val ''Pen'', price = Undefined, category = Val ''Stationery''\<rparr> example_store =
     (\<lparr>status = 400,
       json = [(''success'', JBool False),
               (''message'',
                JStr ''Please provide all required fields: name, price, and category'')]\<rparr>,
      example_store)"
  using create_missing_field_fixed_message
    [of "\<lparr>name = Val ''Pen'', price = Undefined, category = Val ''Stationery''\<rparr>"
      Product example_env example_store]
  by simp

section \<open>Identifiers that resolve to nothing\<close>

lemma findById_malformed:
  "\<not> is_object_id i \<Longrightarrow>
     findById Product i coll = Inl (CastError ''ObjectId'' (cast_failed ''ObjectId'' i ''_id''))"
  by (simp add: Product_def Product_findById_def cast_object_id_def)

lemma findById_well_formed:
  "is_object_id i \<Longrightarrow>
     findById Product i coll = Inr (List.find (\<lambda>d. pid d = map lower_hex i) coll)"
  by (simp add: Product_def Product_findById_def cast_object_id_def)

lemma by_id_cast_error:
  assumes "findById P i db = Inl (CastError ''ObjectId'' m)"
  shows "getProductById P i db = invalid_id i"
    and "updateProduct P ev i b db = (invalid_id i, db)"
    and "deleteProduct P i db = (invalid_id i, db)"
  using assms
  by (simp_all add: getProductById_def updateProduct_def deleteProduct_def catch_by_id_def
      catch_update_def error_kind_def)

lemma by_id_absent:
  assumes "findById P i db = Inr None"
  shows "getProductById P i db = not_found i"
    and "updateProduct P ev i b db = (not_found i, db)"
    and "deleteProduct P i db = (not_found i, db)"
  using assms
  by (simp_all add: getProductById_def updateProduct_def deleteProduct_def)

text \<open>
  C4. For an identifier \<open>i\<close> that is malformed (it does not cast to an ObjectId), get by
  id, update and delete by id each answer 404, the status they also give for a
  well-formed identifier \<open>j\<close> that no stored document has.
\<close>

theorem malformed_id_is_not_found:
  assumes "\<not> is_object_id i"
    and "is_object_id j" and "map lower_hex j \<notin> set (map pid coll)"
  shows "status (getProductById Product i coll) = 404 \<and>
         status (fst (updateProduct Product ev i b coll)) = 404 \<and>
         status (fst (deleteProduct Product i coll)) = 404 \<and>
         status (getProductById Product j coll) = 404 \<and>
         status (fst (updateProduct Product ev j b coll)) = 404 \<and>
         status (fst (deleteProduct Product j coll)) = 404"
proof -
  have "List.find (\<lambda>d. pid d = map lower_hex j) coll = None"
    using assms(3) by (force simp add: find_None_iff image_iff)
  then have "findById Product j coll = Inr None"
    using assms(2) by (simp add: findById_well_formed)
  then show ?thesis
    using findById_malformed [OF assms(1), of coll]
    by (simp add: by_id_cast_error by_id_absent invalid_id_def not_found_def)
qed

theorem malformed_id_is_not_found_witness:
  "\<not> is_object_id ''not-an-id'' \<and> is_object_id ''ffffffffffffffffffffffff'' \<and>
   status (getProductById Product ''not-an-id'' example_store) = 404 \<and>
   status (fst (updateProduct Product example_env ''not-an-id''
      \<lparr>name = Undefined, price = Val 1500, category = Undefined\<rparr> example_store)) = 404 \<and>
   status (fst (deleteProduct Product ''not-an-id'' example_store)) = 404"
proof -
  have a: "\<not> is_object_id ''not-an-id''"
    by (simp add: is_object_id_def)
  have b: "is_object_id ''ffffffffffffffffffffffff''"
    by (simp add: is_object_id_def all_digits_def digit_of_def)
  have c: "map lower_hex ''ffffffffffffffffffffffff'' \<notin> set (map pid example_store)"
    by (simp add: lower_hex_def example_store_def mouse_def novel_def camera_def desk_def)
  show ?thesis
    using a b malformed_id_is_not_found [OF a b c, of example_env
        "\<lparr>name = Undefined, price = Val 1500, category = Undefined\<rparr>"]
    by simp
qed

section \<open>Delete all\<close>

lemma deleteMany_all:
  "deleteMany Product empty_query coll = (Inr (length coll), [])"
  by (simp add: Product_def Product_deleteMany_def cast_query_def empty_query_def matches_def)

lemma deleteAllProducts_eq:
  "deleteAllProducts Product coll =
     (\<lparr>status = 200,
       json = [(''success'', JBool True),
               (''message'',
                JStr (''Successfully deleted '' @ string_of_nat (length coll) @ '' products'')),
               (''deletedCount'', JNum (real (length coll)))]\<rparr>, [])"
  by (simp add: deleteAllProducts_def deleteMany_all)

lemma find_docs_empty:
  "find_docs Product mq srt lm sk [] = Inr [] \<or>
   (\<exists>e. find_docs Product mq srt lm sk [] = Inl e)"
  by (simp add: Product_def Product_find_def sort_by_def window_def
      split: sum.splits option.splits)

lemma list_of_empty_store:
  "status (getAllProducts Product q []) = 500 \<or>
   body_docs (getAllProducts Product q []) = Some []"
  using find_docs_empty [of "build_query q" "Some (sort_option q)" "Some (limit_number q)"
      "Some (skip_number q)"]
  by (auto simp add: getAllProducts_def server_error_def body_docs_def split: sum.splits)

lemma list_no_params_empty:
  "getAllProducts Product no_params [] =
     \<lparr>status = 200,
      json = [(''success'', JBool True), (''count'', JNum 0), (''total'', JNum 0),
              (''page'', JNum 1), (''totalPages'', JNum 0), (''data'', JDocs [])]\<rparr>"
  by (simp add: getAllProducts_def Product_def Product_find_def Product_countDocuments_def
      build_query_def no_params_def truthy_def cast_query_def sort_by_def skip_number_def
      page_number_def limit_number_def js_sub_def js_mul_def js_div_def js_ceil_def as_int_def
      json_of_num_def window_def)

text \<open>
  C9. On a store of any number of documents, delete-all answers 200 with
  \<open>deletedCount\<close> equal to that number. The list request without parameters that
  follows answers with no documents and a count of 0, and a list request with any
  parameters \<open>q\<close> returns no document either (it answers 500 or an empty page).
\<close>

theorem delete_all_then_list_empty:
  "status (fst (deleteAllProducts Product coll)) = 200 \<and>
   body_num ''deletedCount'' (fst (deleteAllProducts Product coll)) = Some (real (length coll)) \<and>
   body_docs (getAllProducts Product no_params (snd (deleteAllProducts Product coll))) = Some [] \<and>
   body_num ''count'' (getAllProducts Product no_params (snd (deleteAllProducts Product coll)))
     = Some 0 \<and>
   (status (getAllProducts Product q (snd (deleteAllProducts Product coll))) = 500 \<or>
    body_docs (getAllProducts Product q (snd (deleteAllProducts Product coll))) = Some [])"
  using list_of_empty_store [of q]
  by (simp add: deleteAllProducts_eq list_no_params_empty body_num_def body_docs_def)

theorem delete_all_then_list_empty_witness:
  "body_num ''deletedCount'' (fst (deleteAllProducts Product example_store)) = Some 4 \<and>
   snd (deleteAllProducts Product example_store) = [] \<and>
   body_docs (getAllProducts Product no_params (snd (deleteAllProducts Product example_store)))
     = Some []"
  using delete_all_then_list_empty [of example_store no_params]
  by (simp add: example_store_def deleteAllProducts_eq)

section \<open>Create and read back\<close>


lemma trim_nonempty: "trim n \<noteq> [] \<Longrightarrow> n \<noteq> []"
  by (auto simp add: trim_def)











section \<open>Validation errors\<close>








section \<open>Update\<close>






section \<open>The list request\<close>









lemma length_insert_by: "length (insert_by le x xs) = Suc (length xs)"
  by (induction xs) auto

lemma length_sort_by: "length (sort_by le xs) = length xs"
  by (induction xs) (simp_all add: sort_by_def length_insert_by)












subsection \<open>Sorting\<close>








lemma join_single_no_separator:
  "length ws = 1 \<Longrightarrow> \<forall>w\<in>set ws. c \<notin> set w \<Longrightarrow> c \<notin> set (join [c] ws)"
  by (cases ws) auto









subsection \<open>Pagination\<close>













end
